theory Spec2Isabelle
  imports Main "HOL-Library.AList"
begin

section \<open>Strings\<close>

text \<open>
  A Python \<open>str\<close> is modelled as a \<open>string\<close>, a list of characters. Every operation
  below treats a character as one atomic code point and only compares it with ASCII
  delimiters or asks whether it is white space, so the model covers the code points that
  \<open>char\<close> has (those below 256). \<open>isspace\<close> is the predicate behind both
  \<open>str.strip()\<close> and the regular-expression class \<open>\s\<close> of a \<open>str\<close> pattern: in
  this range the code points 9 to 13, 28 to 32, 133 and 160.
\<close>

abbreviation NL :: char where "NL \<equiv> CHR 0x0A"

definition isspace :: "char \<Rightarrow> bool" where
  "isspace c = (let n = (of_char c :: nat) in
     (9 \<le> n \<and> n \<le> 13) \<or> (28 \<le> n \<and> n \<le> 32) \<or> n = 133 \<or> n = 160)"

definition strip :: "string \<Rightarrow> string" where
  "strip s = rev (dropWhile isspace (rev (dropWhile isspace s)))"

section \<open>Post-processing of the Markdown text\<close>

text \<open>
  \<open>post_process_markdown\<close> is three calls of \<open>re.sub\<close> and a \<open>strip\<close>. \<open>re.sub\<close>
  scans the text from the left: where the pattern matches at the current position the
  replacement is emitted and the scan continues behind the match; elsewhere one character
  is copied. None of the three patterns matches the empty string. Each pattern is
  modelled by a matcher that follows the backtracking search of \<open>re\<close>.

  First substitution, \<open>re.sub(r'\n{3,}', '\n\n', content)\<close>: a run of three or more
  newlines (the quantifier is greedy, so the whole run) becomes two newlines.
\<close>

function collapse_newlines :: "string \<Rightarrow> string" where
  "collapse_newlines [] = []"
| "collapse_newlines (c # cs) =
    (if c = NL \<and> take 2 cs = [NL, NL]
     then NL # NL # collapse_newlines (dropWhile (\<lambda>x. x = NL) cs)
     else c # collapse_newlines cs)"
  by pat_completeness auto
termination
  by (relation "measure length") (auto simp: less_Suc_eq_le length_dropWhile_le)

text \<open>
  Second substitution, \<open>re.sub(r'!\[([^\]]*)\]\(([^)]+)\)', r'![\1](\2)', content)\<close>.
  \<open>match_image\<close> matches the pattern at the start of its argument and returns the two
  groups and the text behind the match. Both character classes exclude the delimiter
  that must follow them, so the greedy match is the only one.
\<close>

definition match_image :: "string \<Rightarrow> (string \<times> string \<times> string) option" where
  "match_image s =
     (if take 2 s = ''!['' then
        (let r1 = drop 2 s;
             alt = takeWhile (\<lambda>c. c \<noteq> CHR '']'') r1;
             r2 = dropWhile (\<lambda>c. c \<noteq> CHR '']'') r1
         in if take 2 r2 = '']('' then
              (let r3 = drop 2 r2;
                   url = takeWhile (\<lambda>c. c \<noteq> CHR '')'') r3;
                   r4 = dropWhile (\<lambda>c. c \<noteq> CHR '')'') r3
               in if url \<noteq> [] \<and> r4 \<noteq> [] then Some (alt, url, tl r4) else None)
            else None)
      else None)"

lemma match_image_shorter:
  "match_image s = Some (alt, url, rest) \<Longrightarrow> length rest < length s"
proof -
  assume m: "match_image s = Some (alt, url, rest)"
  define r2 where "r2 = dropWhile (\<lambda>c. c \<noteq> CHR '']'') (drop 2 s)"
  define r4 where "r4 = dropWhile (\<lambda>c. c \<noteq> CHR '')'') (drop 2 r2)"
  from m have ne: "r4 \<noteq> []" and rest: "rest = tl r4"
    by (auto simp: match_image_def Let_def r2_def r4_def split: if_splits)
  have "length r4 \<le> length (drop 2 r2)"
    unfolding r4_def by (rule length_dropWhile_le)
  moreover have "length r2 \<le> length (drop 2 s)"
    unfolding r2_def by (rule length_dropWhile_le)
  ultimately have "length r4 \<le> length s" by simp
  with ne rest show ?thesis by (cases r4) auto
qed

function fix_images :: "string \<Rightarrow> string" where
  "fix_images [] = []"
| "fix_images (c # cs) =
    (case match_image (c # cs) of
       Some (alt, url, rest) \<Rightarrow> ''!['' @ alt @ '']('' @ url @ '')'' @ fix_images rest
     | None \<Rightarrow> c # fix_images cs)"
  by pat_completeness auto
termination
  by (relation "measure length") (auto dest: match_image_shorter)

text \<open>
  Third substitution,
  \<open>re.sub(r'(\n)?(\#{1,6}\s+[^\n]+)(\n)?', r'\n\n\2\n\n', content)\<close>. The pattern has no
  anchor and no \<open>MULTILINE\<close> flag, and \<open>\s\<close> also matches a newline.

  \<open>ws_backtrack r j\<close> tries \<open>\s+\<close> on the first \<open>j\<close> characters of \<open>r\<close>, the longest
  choice first: \<open>[^\n]+\<close> needs one more character that is not a newline, otherwise
  \<open>\s+\<close> gives one character back. \<open>hashes_backtrack s n\<close> tries \<open>\#{1,6}\<close> on \<open>n\<close>
  characters, again the longest choice first. Both return the length of what is matched.
\<close>

fun ws_backtrack :: "string \<Rightarrow> nat \<Rightarrow> nat option" where
  "ws_backtrack r 0 = None"
| "ws_backtrack r (Suc j) =
    (if Suc j < length r \<and> r ! Suc j \<noteq> NL then Some (Suc j) else ws_backtrack r j)"

definition match_ws_text :: "string \<Rightarrow> nat option" where
  "match_ws_text r =
     (case ws_backtrack r (length (takeWhile isspace r)) of
        None \<Rightarrow> None
      | Some j \<Rightarrow> Some (j + length (takeWhile (\<lambda>c. c \<noteq> NL) (drop j r))))"

fun hashes_backtrack :: "string \<Rightarrow> nat \<Rightarrow> nat option" where
  "hashes_backtrack s 0 = None"
| "hashes_backtrack s (Suc n) =
    (case match_ws_text (drop (Suc n) s) of
       Some l \<Rightarrow> Some (Suc n + l)
     | None \<Rightarrow> hashes_backtrack s n)"

definition match_heading_body :: "string \<Rightarrow> nat option" where
  "match_heading_body s =
     hashes_backtrack s (min 6 (length (takeWhile (\<lambda>c. c = CHR ''#'') s)))"

text \<open>The optional group \<open>(\n)?\<close> at the end of the pattern takes a newline when there is one.\<close>

definition opt_newline :: "string \<Rightarrow> string" where
  "opt_newline r = (if take 1 r = [NL] then drop 1 r else r)"

text \<open>
  \<open>match_heading\<close> matches the whole pattern at the start of its argument and returns
  group 2 and the text behind the match. The leading \<open>(\n)?\<close> first takes the newline
  and, when the rest fails behind it, is tried empty.
\<close>

definition match_heading :: "string \<Rightarrow> (string \<times> string) option" where
  "match_heading s =
     (case (if take 1 s = [NL] then match_heading_body (drop 1 s) else None) of
        Some l \<Rightarrow> Some (take l (drop 1 s), opt_newline (drop l (drop 1 s)))
      | None \<Rightarrow>
          (case match_heading_body s of
             Some l \<Rightarrow> Some (take l s, opt_newline (drop l s))
           | None \<Rightarrow> None))"

lemma hashes_backtrack_pos: "hashes_backtrack s n = Some l \<Longrightarrow> 0 < l \<and> 0 < n"
  by (induction n) (auto split: option.splits)

lemma match_heading_body_pos:
  "match_heading_body s = Some l \<Longrightarrow> 0 < l \<and> s \<noteq> []"
  unfolding match_heading_body_def by (cases s) (auto dest: hashes_backtrack_pos)

lemma length_opt_newline: "length (opt_newline r) \<le> length r"
  by (simp add: opt_newline_def)

lemma match_heading_shorter:
  "match_heading s = Some (g, rest) \<Longrightarrow> length rest < length s"
proof -
  assume m: "match_heading s = Some (g, rest)"
  have step: "length (opt_newline (drop l r)) < length r"
    if "match_heading_body r = Some l" for r l
  proof -
    from that have "0 < l" "r \<noteq> []" by (auto dest: match_heading_body_pos)
    then have "length (drop l r) < length r" by simp
    then show ?thesis using length_opt_newline [of "drop l r"] by simp
  qed
  show ?thesis
  proof (cases "take 1 s = [NL] \<and> match_heading_body (drop 1 s) \<noteq> None")
    case True
    then obtain l where l: "match_heading_body (drop 1 s) = Some l" by auto
    with True m have "rest = opt_newline (drop l (drop 1 s))"
      by (simp add: match_heading_def)
    with step [OF l] show ?thesis by simp
  next
    case False
    with m obtain l where l: "match_heading_body s = Some l"
      and "rest = opt_newline (drop l s)"
      by (auto simp: match_heading_def split: option.splits if_splits)
    with step [OF l] show ?thesis by simp
  qed
qed

function heading_sub :: "string \<Rightarrow> string" where
  "heading_sub [] = []"
| "heading_sub (c # cs) =
    (case match_heading (c # cs) of
       Some (g2, rest) \<Rightarrow> [NL, NL] @ g2 @ [NL, NL] @ heading_sub rest
     | None \<Rightarrow> c # heading_sub cs)"
  by pat_completeness auto
termination
  by (relation "measure length") (auto dest: match_heading_shorter)

definition post_process_markdown :: "string \<Rightarrow> string" where
  "post_process_markdown content =
     strip (heading_sub (fix_images (collapse_newlines content)))"

section \<open>The parsed document\<close>

text \<open>
  The tree that \<open>BeautifulSoup(text, 'html.parser')\<close> builds: a tag with its name, its
  attribute dictionary (in insertion order) and its contents, a text node
  (\<open>NavigableString\<close>), or a comment; the string of a \<open>Comment\<close> is the text between
  the delimiters. The \<open>BeautifulSoup\<close> object itself is the tag \<open>[document]\<close>.
  Searches run over the descendants of a tag in document order.
\<close>

datatype node =
    Element string "(string \<times> string) list" "node list"
  | Text string
  | Comment string

fun descendants :: "node \<Rightarrow> node list" where
  "descendants (Element n attrs cs) = concat (map (\<lambda>c. c # descendants c) cs)"
| "descendants (Text s) = []"
| "descendants (Comment s) = []"

fun is_tag :: "string list \<Rightarrow> node \<Rightarrow> bool" where
  "is_tag names (Element n attrs cs) = (n \<in> set names)"
| "is_tag names (Text s) = False"
| "is_tag names (Comment s) = False"

text \<open>\<open>soup.find(name)\<close>: the first tag of that name, or \<open>None\<close>.\<close>

definition find_tag :: "string \<Rightarrow> node \<Rightarrow> node option" where
  "find_tag name soup = find (is_tag [name]) (descendants soup)"

text \<open>\<open>tag.text\<close>: the text nodes below the tag, concatenated; comments are left out.\<close>

fun get_text :: "node \<Rightarrow> string" where
  "get_text (Element n attrs cs) = concat (map get_text cs)"
| "get_text (Text s) = s"
| "get_text (Comment s) = []"

text \<open>
  \<open>not x\<close> for an optional string, as in \<open>if not src\<close>, \<open>if not img_name\<close> and
  \<open>if not img.get('alt')\<close>: true for \<open>None\<close> and for the empty string.
\<close>

fun py_not :: "string option \<Rightarrow> bool" where
  "py_not None = True"
| "py_not (Some s) = (s = [])"

text \<open>
  A text split at the characters that satisfy \<open>sep\<close>, empty fields kept. The words of a
  \<open>class\<close> attribute are its fields between white space that are not empty.
\<close>

fun split_on :: "(char \<Rightarrow> bool) \<Rightarrow> string \<Rightarrow> string list" where
  "split_on sep [] = [[]]"
| "split_on sep (c # cs) =
    (if sep c then [] # split_on sep cs
     else (case split_on sep cs of
             [] \<Rightarrow> [[c]]
           | w # ws \<Rightarrow> (c # w) # ws))"

definition words :: "string \<Rightarrow> string list" where
  "words s = filter (\<lambda>w. w \<noteq> []) (split_on isspace s)"

subsection \<open>Cleaning\<close>

text \<open>
  \<open>remove_nodes P\<close> takes every descendant that satisfies \<open>P\<close> out of the tree, with
  everything below it: the effect of calling \<open>decompose()\<close> or \<open>extract()\<close> on every
  element of a \<open>find_all\<close> result.
\<close>

fun remove_nodes :: "(node \<Rightarrow> bool) \<Rightarrow> node \<Rightarrow> node" where
  "remove_nodes P (Element n attrs cs) =
     Element n attrs (map (remove_nodes P) (filter (\<lambda>c. \<not> P c) cs))"
| "remove_nodes P (Text s) = Text s"
| "remove_nodes P (Comment s) = Comment s"

text \<open>\<open>sub in s\<close> for two strings.\<close>

fun contains :: "string \<Rightarrow> string \<Rightarrow> bool" where
  "contains sub [] = (sub = [])"
| "contains sub (c # cs) = (take (length sub) (c # cs) = sub \<or> contains sub cs)"

text \<open>
  The filter of the second search,
  \<open>find_all(text=lambda text: isinstance(text, str) and '<!--' in text)\<close>: it is
  applied to every string node, text and comment alike, and looks for the four
  characters in the node's string.
\<close>

fun comment_filter :: "node \<Rightarrow> bool" where
  "comment_filter (Element n attrs cs) = False"
| "comment_filter (Text s) = contains ''<!--'' s"
| "comment_filter (Comment s) = contains ''<!--'' s"

definition clean_html :: "node \<Rightarrow> node" where
  "clean_html soup =
     remove_nodes comment_filter
       (remove_nodes (is_tag [''script'', ''style'', ''meta'', ''link'']) soup)"

subsection \<open>Locating the main content\<close>

text \<open>
  The CSS selectors that the code passes to \<open>select_one\<close>: a tag name, an attribute with
  a value, a class, an id. \<open>select_one\<close> returns the first descendant that matches.
\<close>

datatype selector = ByTag string | ByAttr string string | ByClass string | ById string

fun matches :: "selector \<Rightarrow> node \<Rightarrow> bool" where
  "matches (ByTag t) (Element n attrs cs) = (n = t)"
| "matches (ByAttr k v) (Element n attrs cs) = (map_of attrs k = Some v)"
| "matches (ByClass c) (Element n attrs cs) =
     (case map_of attrs ''class'' of None \<Rightarrow> False | Some v \<Rightarrow> c \<in> set (words v))"
| "matches (ById i) (Element n attrs cs) = (map_of attrs ''id'' = Some i)"
| "matches sel (Text s) = False"
| "matches sel (Comment s) = False"

definition select_one :: "selector \<Rightarrow> node \<Rightarrow> node option" where
  "select_one sel soup = find (matches sel) (descendants soup)"

definition selectors :: "selector list" where
  "selectors = [ByTag ''main'', ByTag ''article'', ByAttr ''role'' ''main'',
     ByClass ''content'', ById ''content'', ByClass ''post'', ByClass ''entry-content'']"

text \<open>The loop over the selectors: the first selector with a match decides.\<close>

fun first_selected :: "selector list \<Rightarrow> node \<Rightarrow> node option" where
  "first_selected [] soup = None"
| "first_selected (sel # sels) soup =
    (case select_one sel soup of
       Some m \<Rightarrow> Some m
     | None \<Rightarrow> first_selected sels soup)"

definition main_content :: "node \<Rightarrow> node" where
  "main_content soup =
     (case first_selected selectors soup of
        Some m \<Rightarrow> m
      | None \<Rightarrow> (case find_tag ''body'' soup of Some b \<Rightarrow> b | None \<Rightarrow> soup))"

section \<open>Files and network\<close>

text \<open>
  A path is the list of its components, with a flag for an absolute path, as \<open>pathlib\<close>
  keeps it: \<open>Path(s)\<close> splits at \<open>/\<close> and drops empty components and \<open>.\<close>; joining
  with an absolute path replaces the left operand. The file system maps a path to a
  directory or to a file with the mode it was written in and its content; the path
  without components (the working directory or the root) is always a directory.
\<close>

type_synonym path = "bool \<times> string list"

datatype mode = TextUtf8 | Binary

datatype entry = Dir | File mode string

type_synonym filesystem = "path \<Rightarrow> entry option"

definition parts :: "string \<Rightarrow> string list" where
  "parts s = filter (\<lambda>w. w \<noteq> [] \<and> w \<noteq> ''.'') (split_on (\<lambda>c. c = CHR ''/'') s)"

definition Path :: "string \<Rightarrow> path" where
  "Path s = (take 1 s = ''/'', parts s)"

definition path_join :: "path \<Rightarrow> string \<Rightarrow> path" where
  "path_join p s = (if take 1 s = ''/'' then Path s else (fst p, snd p @ parts s))"

definition parent :: "path \<Rightarrow> path" where
  "parent p = (fst p, butlast (snd p))"

definition is_dir :: "filesystem \<Rightarrow> path \<Rightarrow> bool" where
  "is_dir fs p = (snd p = [] \<or> fs p = Some Dir)"

datatype error =
    ConnectionError
  | HTTPError nat
  | FileExistsError
  | FileNotFoundError
  | NotADirectoryError
  | IsADirectoryError

text \<open>
  \<open>Path.mkdir(exist_ok=True)\<close>: nothing happens when the directory exists; the parent
  is not created (\<open>parents\<close> is left at \<open>False\<close>).
\<close>

definition mkdir_exist_ok :: "filesystem \<Rightarrow> path \<Rightarrow> error + filesystem" where
  "mkdir_exist_ok fs p =
     (if is_dir fs p then Inr fs
      else if fs p \<noteq> None then Inl FileExistsError
      else if is_dir fs (parent p) then Inr (fs(p \<mapsto> Dir))
      else if fs (parent p) = None then Inl FileNotFoundError
      else Inl NotADirectoryError)"

text \<open>\<open>open(p, mode)\<close> followed by \<open>write(content)\<close>: the file is created or replaced.\<close>

definition write_file :: "filesystem \<Rightarrow> path \<Rightarrow> mode \<Rightarrow> string \<Rightarrow> error + filesystem" where
  "write_file fs p m content =
     (if is_dir fs p then Inl IsADirectoryError
      else if is_dir fs (parent p) then Inr (fs(p \<mapsto> File m content))
      else if fs (parent p) = None then Inl FileNotFoundError
      else Inl NotADirectoryError)"

text \<open>
  The state that the program changes: the file system and the list of the URLs it has
  requested, the oldest first.
\<close>

record world =
  files :: filesystem
  requests :: "string list"

text \<open>
  The answer to \<open>session.get\<close>: no answer (a connection failure or a timeout, where
  \<open>requests\<close> raises), or a status code with the body. \<open>raise_for_status()\<close> raises for
  the codes from 400 to 599.
\<close>

datatype response = NoResponse | Response nat string

definition error_status :: "nat \<Rightarrow> bool" where
  "error_status status = (400 \<le> status \<and> status < 600)"

text \<open>
  What the program takes from its libraries and its surroundings is a parameter of the
  model: the answer of the network to a request (it may depend on the requests made
  before), \<open>urljoin\<close> (\<open>None\<close> where it raises \<open>ValueError\<close>), the path component of
  \<open>urlparse\<close>, the MD5 digest in hexadecimal, the HTML parser, the serialisation of a
  tag (\<open>str(tag)\<close>), the HTML-to-Markdown conversion with its \<open>ignore_images\<close> option,
  the built-in \<open>hash\<close> of a string, and the formatted current time.
\<close>

record env =
  http_get :: "string list \<Rightarrow> string \<Rightarrow> response"
  urljoin :: "string \<Rightarrow> string \<Rightarrow> string option"
  url_path :: "string \<Rightarrow> string"
  md5_hex :: "string \<Rightarrow> string"
  parse_html :: "string \<Rightarrow> node"
  serialize :: "node \<Rightarrow> string"
  html2text :: "bool \<Rightarrow> string \<Rightarrow> string"
  str_hash :: "string \<Rightarrow> int"
  now :: string

section \<open>The converter\<close>

text \<open>
  The fields of a \<open>WebpageToMarkdown\<close> object; of the \<open>html2text\<close> configuration only
  \<open>ignore_images\<close> is ever changed after the constructor.
\<close>

record converter =
  url :: string
  output_dir :: path
  images_dir :: path
  filename :: "string option"
  ignore_images :: bool

text \<open>The constructor: it stores its arguments and creates the two directories.\<close>

definition init :: "string \<Rightarrow> string \<Rightarrow> string option \<Rightarrow> world \<Rightarrow> (error + converter) \<times> world" where
  "init u out fname w =
     (let self = \<lparr>url = u, output_dir = Path out, images_dir = path_join (Path out) ''images'',
                  filename = fname, ignore_images = False\<rparr>
      in case mkdir_exist_ok (files w) (output_dir self) of
           Inl err \<Rightarrow> (Inl err, w)
         | Inr fs1 \<Rightarrow>
             (case mkdir_exist_ok fs1 (images_dir self) of
                Inl err \<Rightarrow> (Inl err, w\<lparr>files := fs1\<rparr>)
              | Inr fs2 \<Rightarrow> (Inr self, w\<lparr>files := fs2\<rparr>)))"

subsection \<open>Downloading an image\<close>

text \<open>\<open>os.path.basename\<close>: what follows the last \<open>/\<close>.\<close>

definition basename :: "string \<Rightarrow> string" where
  "basename p = rev (takeWhile (\<lambda>c. c \<noteq> CHR ''/'') (rev p))"

text \<open>
  The second component of \<open>os.path.splitext\<close>: the last dot of the base name and what
  follows it, where leading dots of the base name do not count.
\<close>

definition splitext_ext :: "string \<Rightarrow> string" where
  "splitext_ext p =
     (let stem = dropWhile (\<lambda>c. c = CHR ''.'') (basename p)
      in if CHR ''.'' \<in> set stem
         then CHR ''.'' # rev (takeWhile (\<lambda>c. c \<noteq> CHR ''.'') (rev stem))
         else [])"

text \<open>The name generated for an image from its absolute URL.\<close>

definition generated_name :: "env \<Rightarrow> string \<Rightarrow> string" where
  "generated_name e img_url =
     (let url_hash = take 8 (md5_hex e img_url);
          ext = (if splitext_ext (url_path e img_url) = [] then ''.jpg''
                 else splitext_ext (url_path e img_url))
      in ''img_'' @ url_hash @ ext)"

text \<open>
  \<open>download_image\<close> returns the reference to put into the document. Everything from
  \<open>urljoin\<close> to the write is inside one \<open>try\<close>; the handler returns \<open>img_url\<close>, which
  is the resolved URL once \<open>urljoin\<close> has returned.
\<close>

definition download_image :: "env \<Rightarrow> converter \<Rightarrow> string \<Rightarrow> string option \<Rightarrow> world \<Rightarrow> string \<times> world" where
  "download_image e self src img_name0 w =
     (case urljoin e (url self) src of
        None \<Rightarrow> (src, w)
      | Some img_url \<Rightarrow>
          (let w1 = w\<lparr>requests := requests w @ [img_url]\<rparr>
           in case http_get e (requests w) img_url of
                NoResponse \<Rightarrow> (img_url, w1)
              | Response status content \<Rightarrow>
                  if error_status status then (img_url, w1)
                  else
                    (let img_name = (if py_not img_name0 then generated_name e img_url
                                     else the img_name0);
                         img_path = path_join (images_dir self) img_name
                     in case write_file (files w1) img_path Binary content of
                          Inl err \<Rightarrow> (img_url, w1)
                        | Inr fs \<Rightarrow> (''images/'' @ img_name, w1\<lparr>files := fs\<rparr>))))"

subsection \<open>Processing the images of the document\<close>

text \<open>
  The body of the loop in \<open>process_images\<close>, on the attributes of one \<open>img\<close> tag:
  \<open>img['src'] = v\<close> replaces the value of an attribute or appends the attribute.
\<close>

definition process_img :: "env \<Rightarrow> converter \<Rightarrow> (string \<times> string) list \<Rightarrow> world \<Rightarrow> (string \<times> string) list \<times> world" where
  "process_img e self attrs w =
     (if py_not (map_of attrs ''src'') then (attrs, w)
      else (case download_image e self (the (map_of attrs ''src'')) None w of
              (local_path, w1) \<Rightarrow>
                (let attrs1 = AList.update ''src'' local_path attrs
                 in if py_not (map_of attrs1 ''alt'')
                    then (AList.update ''alt'' (basename local_path) attrs1, w1)
                    else (attrs1, w1))))"

text \<open>
  The loop runs over \<open>soup.find_all('img')\<close>, every \<open>img\<close> tag below \<open>soup\<close> in
  document order; the traversal below visits the tags in that order and carries the
  world along.
\<close>

fun process_node :: "env \<Rightarrow> converter \<Rightarrow> node \<Rightarrow> world \<Rightarrow> node \<times> world"
  and process_nodes :: "env \<Rightarrow> converter \<Rightarrow> node list \<Rightarrow> world \<Rightarrow> node list \<times> world" where
  "process_node e self (Element n attrs cs) w =
     (case (if n = ''img'' then process_img e self attrs w else (attrs, w)) of
        (attrs1, w1) \<Rightarrow>
          (case process_nodes e self cs w1 of
             (cs1, w2) \<Rightarrow> (Element n attrs1 cs1, w2)))"
| "process_node e self (Text s) w = (Text s, w)"
| "process_node e self (Comment s) w = (Comment s, w)"
| "process_nodes e self [] w = ([], w)"
| "process_nodes e self (c # cs) w =
     (case process_node e self c w of
        (c1, w1) \<Rightarrow>
          (case process_nodes e self cs w1 of
             (cs1, w2) \<Rightarrow> (c1 # cs1, w2)))"

fun process_images :: "env \<Rightarrow> converter \<Rightarrow> node \<Rightarrow> world \<Rightarrow> node \<times> world" where
  "process_images e self (Element n attrs cs) w =
     (case process_nodes e self cs w of (cs1, w1) \<Rightarrow> (Element n attrs cs1, w1))"
| "process_images e self (Text s) w = (Text s, w)"
| "process_images e self (Comment s) w = (Comment s, w)"

subsection \<open>The conversion\<close>

text \<open>Decimal digits of a natural number, as an f-string formats it.\<close>

function str_of_nat :: "nat \<Rightarrow> string" where
  "str_of_nat n =
     (if n < 10 then [char_of (48 + n)]
      else str_of_nat (n div 10) @ [char_of (48 + n mod 10)])"
  by pat_completeness auto
termination
  by (relation "measure id") auto

text \<open>
  \<open>re.sub(r'[<>:"/\\|?*]', '_', title_text)\<close>: each of the nine characters becomes an
  underscore.
\<close>

definition forbidden :: "char list" where
  "forbidden = [CHR ''<'', CHR ''>'', CHR '':'', CHR 0x22, CHR ''/'', CHR 0x5C,
     CHR ''|'', CHR ''?'', CHR ''*'']"

definition sanitize :: "string \<Rightarrow> string" where
  "sanitize title_text = map (\<lambda>c. if c \<in> set forbidden then CHR ''_'' else c) title_text"

text \<open>The base name of the output file, from the lines that compute \<open>safe_title\<close>.\<close>

definition safe_title :: "env \<Rightarrow> converter \<Rightarrow> string \<Rightarrow> string" where
  "safe_title e self title_text =
     (if \<not> py_not (filename self) then the (filename self)
      else (let t = take 50 (sanitize title_text)
            in if strip t = []
               then ''webpage_'' @ str_of_nat (nat (str_hash e (url self) mod 10000))
               else t))"

definition title_of :: "node \<Rightarrow> string" where
  "title_of soup =
     (case find_tag ''title'' soup of
        Some title \<Rightarrow> strip (get_text title)
      | None \<Rightarrow> ''webpage'')"

definition metadata :: "env \<Rightarrow> converter \<Rightarrow> string \<Rightarrow> string" where
  "metadata e self title_text =
     ''---'' @ [NL] @ ''title: '' @ title_text @ [NL] @ ''source: '' @ url self @ [NL] @
     ''date: '' @ now e @ [NL] @ ''---'' @ [NL, NL]"

text \<open>
  \<open>convert_to_markdown\<close>: the handler of its \<open>try\<close> prints and raises again, so every
  failure reaches the caller; the result is the error or the path of the written file.
\<close>

definition convert_to_markdown :: "env \<Rightarrow> converter \<Rightarrow> world \<Rightarrow> (error + path) \<times> world" where
  "convert_to_markdown e self w =
     (let w1 = w\<lparr>requests := requests w @ [url self]\<rparr>
      in case http_get e (requests w) (url self) of
           NoResponse \<Rightarrow> (Inl ConnectionError, w1)
         | Response status text \<Rightarrow>
             if error_status status then (Inl (HTTPError status), w1)
             else
               (let soup = parse_html e text;
                    title_text = title_of soup
                in case process_images e self (clean_html soup) w1 of
                     (soup1, w2) \<Rightarrow>
                       (let markdown_content =
                              post_process_markdown
                                (html2text e (ignore_images self) (serialize e (main_content soup1)));
                            final_content = metadata e self title_text @ markdown_content;
                            output_file =
                              path_join (output_dir self) (safe_title e self title_text @ ''.md'')
                        in case write_file (files w2) output_file TextUtf8 final_content of
                             Inl err \<Rightarrow> (Inl err, w2)
                           | Inr fs \<Rightarrow> (Inr output_file, w2\<lparr>files := fs\<rparr>))))"

subsection \<open>The command line\<close>

record args =
  arg_url :: string
  arg_output :: string
  arg_filename :: "string option"
  arg_no_images :: bool

text \<open>\<open>main\<close> returns the exit status: 1 after a failure, 0 otherwise.\<close>

definition main :: "env \<Rightarrow> args \<Rightarrow> world \<Rightarrow> nat \<times> world" where
  "main e a w =
     (let u = (if take 7 (arg_url a) = ''http://'' \<or> take 8 (arg_url a) = ''https://''
               then arg_url a else ''https://'' @ arg_url a)
      in case init u (arg_output a) (arg_filename a) w of
           (Inl err, w1) \<Rightarrow> (1, w1)
         | (Inr converter, w1) \<Rightarrow>
             (let converter1 = (if arg_no_images a then converter\<lparr>ignore_images := True\<rparr>
                                else converter)
              in case convert_to_markdown e converter1 w1 of
                   (Inl err, w2) \<Rightarrow> (1, w2)
                 | (Inr p, w2) \<Rightarrow> (0, w2)))"

section \<open>Predicates for stating the properties\<close>

text \<open>\<open>is_file fs p\<close>: the path \<open>p\<close> is a regular file of \<open>fs\<close>.\<close>

definition is_file :: "filesystem \<Rightarrow> path \<Rightarrow> bool" where
  "is_file fs p = (case fs p of Some (File m c) \<Rightarrow> True | _ \<Rightarrow> False)"

section \<open>An example run\<close>

text \<open>
  A page at \<open>https://example.com/page\<close> with the title \<open>Hi\<close>: an \<open>article\<close> with a
  heading, an image that can be downloaded and one that answers 404, and, outside the
  article, a second image that can be downloaded and an \<open>img\<close> tag without \<open>src\<close>. The
  example environment answers as the libraries do on these inputs (the digests are the
  MD5 digests of the three absolute URLs); the Markdown conversion is a stand-in.
\<close>

definition example_page :: node where
  "example_page =
     Element ''[document]'' []
       [Element ''html'' []
          [Element ''head'' [] [Element ''title'' [] [Text ''Hi'']],
           Element ''body'' []
             [Element ''article'' []
                [Element ''h1'' [] [Text ''Hello''],
                 Element ''img'' [(''src'', ''/a.png'')] [],
                 Element ''img'' [(''src'', ''/missing.png'')] []],
              Element ''aside'' []
                [Element ''img'' [(''src'', ''/aside.png'')] [],
                 Element ''img'' [(''alt'', ''logo'')] []]]]]"

definition example_get :: "string list \<Rightarrow> string \<Rightarrow> response" where
  "example_get log u =
     (if u = ''https://example.com/page'' then Response 200 ''<html>''
      else if u = ''https://example.com/a.png'' then Response 200 ''PNG-a''
      else if u = ''https://example.com/aside.png'' then Response 200 ''PNG-aside''
      else Response 404 [])"

definition example_md5 :: "string \<Rightarrow> string" where
  "example_md5 u =
     (if u = ''https://example.com/a.png'' then ''8c11d92f07c76baf29e49afd2301deb2''
      else if u = ''https://example.com/aside.png'' then ''a8ea94e9d8ecf5c02d518a214c0fa915''
      else ''eae97aa59221e9058925222ece841d8c'')"

definition example_env :: env where
  "example_env =
     \<lparr>http_get = example_get,
      urljoin = (\<lambda>base ref. Some (if take 1 ref = ''/'' then ''https://example.com'' @ ref else ref)),
      url_path = drop 19,
      md5_hex = example_md5,
      parse_html = (\<lambda>text. example_page),
      serialize = get_text,
      html2text = (\<lambda>ignore html. ''# '' @ html),
      str_hash = (\<lambda>u. 1234567),
      now = ''2024-01-01 00:00:00''\<rparr>"

definition example_world :: world where
  "example_world = \<lparr>files = Map.empty, requests = []\<rparr>"

definition example_converter :: converter where
  "example_converter =
     \<lparr>url = ''https://example.com/page'', output_dir = (False, [''output'']),
      images_dir = (False, [''output'', ''images'']), filename = None, ignore_images = False\<rparr>"

definition example_ready :: world where
  "example_ready =
     \<lparr>files = [(False, [''output'']) \<mapsto> Dir, (False, [''output'', ''images'']) \<mapsto> Dir],
      requests = []\<rparr>"

definition example_args :: args where
  "example_args =
     \<lparr>arg_url = ''example.com/page'', arg_output = ''output'', arg_filename = None,
      arg_no_images = True\<rparr>"

text \<open>
  Two more converters for the example: one for a page that the example network answers
  with 404, and one with an explicit file name.
\<close>

definition gone_converter :: converter where
  "gone_converter = example_converter\<lparr>url := ''https://example.com/gone''\<rparr>"


section \<open>Properties of the post-processing\<close>

text \<open>
  The image substitution rebuilds every match from its own groups, so it changes nothing.
\<close>

lemma match_image_rebuild:
  "match_image s = Some (alt, target, rest) \<Longrightarrow> s = ''!['' @ alt @ '']('' @ target @ '')'' @ rest"
proof -
  assume m: "match_image s = Some (alt, target, rest)"
  define r1 where "r1 = drop 2 s"
  define r2 where "r2 = dropWhile (\<lambda>c. c \<noteq> CHR '']'') r1"
  define r3 where "r3 = drop 2 r2"
  define r4 where "r4 = dropWhile (\<lambda>c. c \<noteq> CHR '')'') r3"
  from m have s: "take 2 s = ''![''" and r: "take 2 r2 = ''](''"
    and alt: "alt = takeWhile (\<lambda>c. c \<noteq> CHR '']'') r1"
    and target: "target = takeWhile (\<lambda>c. c \<noteq> CHR '')'') r3"
    and ne: "r4 \<noteq> []" and rest: "rest = tl r4"
    by (auto simp: match_image_def Let_def r1_def r2_def r3_def r4_def split: if_splits)
  have "hd r4 = CHR '')''"
    using ne hd_dropWhile [of "\<lambda>c. c \<noteq> CHR '')''" r3] by (simp add: r4_def)
  with ne rest have r4: "r4 = CHR '')'' # rest" by (cases r4) auto
  have "s = take 2 s @ r1" by (simp add: r1_def)
  also have "r1 = alt @ r2" by (simp add: alt r2_def)
  also have "r2 = take 2 r2 @ r3" by (simp add: r3_def)
  also have "r3 = target @ r4" by (simp add: target r4_def)
  finally show ?thesis by (simp add: s r r4)
qed

lemma fix_images_id: "fix_images s = s"
proof (induction s rule: fix_images.induct)
  case 1
  show ?case by simp
next
  case (2 c cs)
  show ?case
  proof (cases "match_image (c # cs)")
    case None
    with 2 show ?thesis by simp
  next
    case (Some m)
    obtain alt target rest where m: "m = (alt, target, rest)" by (cases m) auto
    with Some 2 have "fix_images rest = rest" by simp
    with Some m match_image_rebuild [of "c # cs" alt target rest] show ?thesis by simp
  qed
qed

text \<open>
  Claim C1 (post-processing is idempotent: applying it twice gives the same text as
  applying it once). The code does not have this property. The heading pattern takes at
  most one newline on each side of a heading and always writes two, so a heading that
  the first application has already put behind a blank line gets a second blank line in
  the second application, after the newline runs have been collapsed. For the body
  \<open>x\<close>, newline, \<open># a\<close> the first application yields one blank line before the
  heading and the second application yields two.
\<close>

theorem post_process_twice_differs:
  "post_process_markdown ''x\<newline># a'' = ''x\<newline>\<newline># a'' \<and>
   post_process_markdown (post_process_markdown ''x\<newline># a'') = ''x\<newline>\<newline>\<newline># a''"
  by code_simp

text \<open>
  Claim C5 (in the post-processed body every heading line has exactly one blank line above
  and exactly one blank line below). The code puts two blank lines around a heading that
  already stands between blank lines, which is how the converter emits a heading between
  two paragraphs: the body \<open>intro\<close>, blank line, \<open># Hello\<close>, blank line, \<open>text\<close> comes
  out with runs of three newlines on both sides of the heading.
\<close>

theorem post_process_heading_two_blank_lines:
  "post_process_markdown ''intro\<newline>\<newline># Hello\<newline>\<newline>text'' =
     ''intro\<newline>\<newline>\<newline># Hello\<newline>\<newline>\<newline>text''"
  by code_simp

section \<open>Properties of the cleaning step\<close>

text \<open>
  What remains below a cleaned tag is the cleaned form of a descendant that was not
  removed, and cleaning does not change whether a node is a tag of a given name. So no
  \<open>script\<close>, \<open>style\<close>, \<open>meta\<close> or \<open>link\<close> tag is left in the cleaned document.
\<close>

lemma descendants_remove_nodes:
  "x \<in> set (descendants (remove_nodes P t)) \<Longrightarrow>
     \<exists>y \<in> set (descendants t). \<not> P y \<and> x = remove_nodes P y"
proof (induction P t arbitrary: x rule: remove_nodes.induct)
  case (1 P n attrs cs)
  from 1(2) obtain c where c: "c \<in> set cs" "\<not> P c"
    and x: "x = remove_nodes P c \<or> x \<in> set (descendants (remove_nodes P c))"
    by auto
  from x show ?case
  proof
    assume "x = remove_nodes P c"
    with c show ?thesis by auto
  next
    assume "x \<in> set (descendants (remove_nodes P c))"
    with 1(1) [of c x] c obtain y where "y \<in> set (descendants c)" "\<not> P y" "x = remove_nodes P y"
      by auto
    with c show ?thesis by auto
  qed
qed simp_all

lemma is_tag_remove_nodes: "is_tag names (remove_nodes P y) = is_tag names y"
  by (cases y) simp_all

lemma clean_html_removes_tags:
  assumes "x \<in> set (descendants (clean_html soup))"
  shows "\<not> is_tag [''script'', ''style'', ''meta'', ''link''] x"
proof -
  let ?T = "is_tag [''script'', ''style'', ''meta'', ''link'']"
  from assms obtain y where y: "y \<in> set (descendants (remove_nodes ?T soup))"
    and x: "x = remove_nodes comment_filter y"
    unfolding clean_html_def by (blast dest: descendants_remove_nodes)
  from y obtain z where z: "\<not> ?T z" "y = remove_nodes ?T z"
    by (blast dest: descendants_remove_nodes)
  have "?T x = ?T z" by (simp only: x z(2) is_tag_remove_nodes)
  with z(1) show ?thesis by simp
qed

text \<open>
  Claim C6 (the cleaning step removes all \<open>script\<close>, \<open>style\<close>, \<open>meta\<close> and \<open>link\<close>
  elements and all comment nodes and nothing else; the cleaned tree contains no comment
  node). The code removes the four kinds of elements, but its search for comments tests
  whether the string of a node contains the characters \<open><!--\<close>. The string of a comment
  node is the text between the delimiters, so an ordinary comment stays in the tree,
  while a text node that shows these characters is taken out. In the document below the
  comment survives, the \<open>script\<close> element is removed and the paragraph loses its text.
\<close>

theorem clean_html_keeps_comment:
  "clean_html
     (Element ''[document]'' []
        [Comment '' navigation '',
         Element ''script'' [] [Text ''var x;''],
         Element ''p'' [] [Text ''write <!-- to open a comment'']]) =
   Element ''[document]'' [] [Comment '' navigation '', Element ''p'' [] []]"
  by code_simp

section \<open>What the steps change\<close>

text \<open>
  A write creates or replaces one file: directories stay directories, other paths stay
  what they were, and a file is never removed. Downloading an image and processing the
  images of a document therefore keep every directory, keep every file as a file, and
  only add to the list of requests.
\<close>

lemma write_file_is_dir:
  "write_file fs p m content = Inr fs' \<Longrightarrow> is_dir fs' q = is_dir fs q"
  by (auto simp: write_file_def is_dir_def split: if_splits)

lemma write_file_written:
  "write_file fs p m content = Inr fs' \<Longrightarrow> fs' p = Some (File m content)"
  by (auto simp: write_file_def split: if_splits)


lemma download_image_is_dir:
  "is_dir (files (snd (download_image e self src n w))) q = is_dir (files w) q"
  by (auto simp: download_image_def Let_def write_file_is_dir
      split: option.splits response.splits sum.splits)

lemma download_image_requests:
  "set (requests w) \<subseteq> set (requests (snd (download_image e self src n w)))"
  by (auto simp: download_image_def Let_def split: option.splits response.splits sum.splits)

lemma process_img_is_dir:
  "is_dir (files (snd (process_img e self attrs w))) q = is_dir (files w) q"
  using download_image_is_dir [of e self "the (map_of attrs ''src'')" None w q]
  by (auto simp: process_img_def Let_def split: prod.splits)

lemma process_invariant:
  assumes step: "\<And>e self attrs w. R w (snd (process_img e self attrs w))"
    and refl: "\<And>w. R w w"
    and trans: "\<And>a b c. R a b \<Longrightarrow> R b c \<Longrightarrow> R a c"
  shows "R w (snd (process_node e self t w))"
    and "R w (snd (process_nodes e self ts w))"
proof (induction e self t w and e self ts w rule: process_node_process_nodes.induct)
  case (1 e self n attrs cs w)
  obtain attrs1 w1 where p: "(attrs1, w1) =
      (if n = ''img'' then process_img e self attrs w else (attrs, w))"
    by (metis surj_pair)
  have a: "R w w1"
  proof (cases "n = ''img''")
    case True
    with p have "w1 = snd (process_img e self attrs w)" by (metis snd_conv)
    with step show ?thesis by simp
  next
    case False
    with p refl show ?thesis by simp
  qed
  have b: "R w1 (snd (process_nodes e self cs w1))"
    using 1(1) [OF p] .
  have "snd (process_node e self (Element n attrs cs) w) = snd (process_nodes e self cs w1)"
    using p [symmetric] by (simp split: prod.splits)
  with a b trans show ?case by metis
next
  case (5 e self c cs w)
  obtain c1 w1 where p: "(c1, w1) = process_node e self c w" by (metis surj_pair)
  have a: "R w w1" using 5(1) p by (metis snd_conv)
  have b: "R w1 (snd (process_nodes e self cs w1))"
    using 5(2) [OF p] .
  have "snd (process_nodes e self (c # cs) w) = snd (process_nodes e self cs w1)"
    using p [symmetric] by (simp split: prod.splits)
  with a b trans show ?case by metis
qed (simp_all add: refl)

lemma process_is_dir:
  "is_dir (files (snd (process_node e self t w))) q = is_dir (files w) q"
  "is_dir (files (snd (process_nodes e self ts w))) q = is_dir (files w) q"
  using process_invariant [where R = "\<lambda>a b. is_dir (files b) q = is_dir (files a) q"]
    process_img_is_dir
  by simp_all

lemma process_img_requests:
  "set (requests w) \<subseteq> set (requests (snd (process_img e self attrs w)))"
  using download_image_requests [of w e self "the (map_of attrs ''src'')" None]
  by (auto simp: process_img_def Let_def split: prod.splits)

lemma process_requests:
  "set (requests w) \<subseteq> set (requests (snd (process_node e self t w)))"
  "set (requests w) \<subseteq> set (requests (snd (process_nodes e self ts w)))"
  using process_invariant [where R = "\<lambda>a b. set (requests a) \<subseteq> set (requests b)"]
    process_img_requests
  by blast+

lemma download_image_is_file:
  "is_file (files w) q \<Longrightarrow> is_file (files (snd (download_image e self src n w))) q"
  by (auto simp: download_image_def Let_def is_file_def write_file_def
      split: option.splits response.splits sum.splits if_splits entry.splits)

lemma process_img_is_file:
  "is_file (files w) q \<Longrightarrow> is_file (files (snd (process_img e self attrs w))) q"
  using download_image_is_file [of w q e self "the (map_of attrs ''src'')" None]
  by (auto simp: process_img_def Let_def split: prod.splits)

lemma process_is_file:
  "is_file (files w) q \<Longrightarrow> is_file (files (snd (process_node e self t w))) q"
  "is_file (files w) q \<Longrightarrow> is_file (files (snd (process_nodes e self ts w))) q"
  using process_invariant [where R = "\<lambda>a b. is_file (files a) q \<longrightarrow> is_file (files b) q"]
    process_img_is_file
  by blast+

lemma process_images_snd:
  "snd (process_images e self soup w) =
     (case soup of Element n attrs cs \<Rightarrow> snd (process_nodes e self cs w) | _ \<Rightarrow> w)"
  by (cases soup) (simp_all split: prod.splits)

lemma process_images_frame:
  "is_dir (files (snd (process_images e self soup w))) q = is_dir (files w) q"
  "set (requests w) \<subseteq> set (requests (snd (process_images e self soup w)))"
  "is_file (files w) q \<Longrightarrow> is_file (files (snd (process_images e self soup w))) q"
  using process_is_dir(2) [of e self _ w q] process_requests(2) [of w e self]
    process_is_file(2) [of w q e self]
  by (simp_all add: process_images_snd split: node.splits)

lemma convert_is_dir:
  "is_dir (files (snd (convert_to_markdown e self w))) q = is_dir (files w) q"
proof (cases "http_get e (requests w) (url self)")
  case NoResponse
  then show ?thesis by (simp add: convert_to_markdown_def)
next
  case (Response status body)
  show ?thesis
  proof (cases "error_status status")
    case True
    with Response show ?thesis by (simp add: convert_to_markdown_def)
  next
    case False
    define w1 where "w1 = w\<lparr>requests := requests w @ [url self]\<rparr>"
    obtain soup1 w2 where p: "process_images e self (clean_html (parse_html e body)) w1 = (soup1, w2)"
      by fastforce
    have w2: "is_dir (files w2) q = is_dir (files w) q"
      using process_images_frame(1) [of e self "clean_html (parse_html e body)" w1 q] p
      by (simp add: w1_def)
    show ?thesis
      using Response False p w2
      by (auto simp: convert_to_markdown_def Let_def w1_def write_file_is_dir split: sum.splits)
  qed
qed

section \<open>A failed page fetch\<close>

text \<open>
  Claim C2 (if the GET for the page itself returns 404, or any error status, the
  conversion raises the failure to its caller and no Markdown file is created for that
  request). \<open>raise_for_status\<close> raises for the codes 400 to 599; the conversion then
  returns the HTTP error, has made this one request, and leaves every file as it was.
\<close>

theorem convert_raises_on_error_status:
  assumes "http_get e (requests w) (url self) = Response status body"
    and "error_status status"
  shows "fst (convert_to_markdown e self w) = Inl (HTTPError status) \<and>
         files (snd (convert_to_markdown e self w)) = files w \<and>
         requests (snd (convert_to_markdown e self w)) = requests w @ [url self]"
  using assms by (simp add: convert_to_markdown_def)

text \<open>
  The example network answers the request for \<open>https://example.com/gone\<close> with 404.
\<close>

lemma gone_answer:
  "http_get example_env (requests example_ready) (url gone_converter) = Response 404 []"
  by (simp add: example_env_def example_get_def gone_converter_def example_converter_def)

lemma error_status_404: "error_status 404"
  by (simp add: error_status_def)

theorem convert_raises_on_error_status_witness:
  "http_get example_env (requests example_ready) (url gone_converter) = Response 404 [] \<and>
   error_status 404 \<and>
   fst (convert_to_markdown example_env gone_converter example_ready) = Inl (HTTPError 404) \<and>
   files (snd (convert_to_markdown example_env gone_converter example_ready)) = files example_ready"
  using convert_raises_on_error_status [OF gone_answer error_status_404] gone_answer error_status_404
  by simp

section \<open>The directories\<close>

lemma mkdir_exist_ok_is_dir:
  "mkdir_exist_ok fs p = Inr fs' \<Longrightarrow> is_dir fs' p"
  by (auto simp: mkdir_exist_ok_def is_dir_def split: if_splits)

lemma mkdir_exist_ok_keeps_dirs:
  "mkdir_exist_ok fs p = Inr fs' \<Longrightarrow> is_dir fs q \<Longrightarrow> is_dir fs' q"
  by (auto simp: mkdir_exist_ok_def is_dir_def split: if_splits)

lemma init_result:
  assumes "init u out fname w = (Inr self, w1)"
  shows "self = \<lparr>url = u, output_dir = Path out, images_dir = path_join (Path out) ''images'',
                  filename = fname, ignore_images = False\<rparr>"
    and "requests w1 = requests w"
    and "is_dir (files w1) (output_dir self)"
    and "is_dir (files w1) (images_dir self)"
proof -
  from assms obtain fs1 fs2 where
    a: "mkdir_exist_ok (files w) (Path out) = Inr fs1"
    and b: "mkdir_exist_ok fs1 (path_join (Path out) ''images'') = Inr fs2"
    and w1: "w1 = w\<lparr>files := fs2\<rparr>"
    and self: "self = \<lparr>url = u, output_dir = Path out, images_dir = path_join (Path out) ''images'',
                  filename = fname, ignore_images = False\<rparr>"
    by (auto simp: init_def Let_def split: sum.splits)
  show "self = \<lparr>url = u, output_dir = Path out, images_dir = path_join (Path out) ''images'',
                  filename = fname, ignore_images = False\<rparr>" by (rule self)
  show "requests w1 = requests w" by (simp add: w1)
  have "is_dir fs1 (Path out)" using a by (rule mkdir_exist_ok_is_dir)
  then have "is_dir fs2 (Path out)" using b mkdir_exist_ok_keeps_dirs by blast
  then show "is_dir (files w1) (output_dir self)" by (simp add: w1 self)
  have "is_dir fs2 (path_join (Path out) ''images'')" using b by (rule mkdir_exist_ok_is_dir)
  then show "is_dir (files w1) (images_dir self)" by (simp add: w1 self)
qed

text \<open>
  Claim C9 (the output directory and its \<open>images\<close> subdirectory are created when the
  converter object is constructed, before any network request; so both directories exist
  after a conversion whose page fetch fails). When the constructor returns an object it
  has made no request and both directories exist; a conversion never removes a
  directory, so both still exist after the conversion has raised, whatever it raised.
\<close>

theorem directories_exist_after_failure:
  assumes "init u out fname w = (Inr self, w1)"
    and "convert_to_markdown e self w1 = (Inl err, w2)"
  shows "output_dir self = Path out \<and> images_dir self = path_join (Path out) ''images'' \<and>
         requests w1 = requests w \<and>
         is_dir (files w1) (output_dir self) \<and> is_dir (files w1) (images_dir self) \<and>
         is_dir (files w2) (output_dir self) \<and> is_dir (files w2) (images_dir self)"
proof -
  note r = init_result [OF assms(1)]
  have "is_dir (files w2) q = is_dir (files w1) q" for q
    using convert_is_dir [of e self w1 q] assms(2) by simp
  with r show ?thesis by simp
qed

text \<open>
  In the example the constructor creates \<open>output\<close> and \<open>output/images\<close> in an empty
  working directory, and the conversion of the missing page fails with 404.
\<close>

lemma example_init:
  "init ''https://example.com/gone'' ''output'' None example_world = (Inr gone_converter, example_ready)"
  by (simp add: init_def Let_def mkdir_exist_ok_def is_dir_def parent_def Path_def path_join_def
      parts_def example_world_def example_ready_def gone_converter_def example_converter_def)

lemma example_gone:
  "convert_to_markdown example_env gone_converter example_ready =
     (Inl (HTTPError 404), example_ready\<lparr>requests := [''https://example.com/gone'']\<rparr>)"
  using gone_answer error_status_404
  by (simp add: convert_to_markdown_def gone_converter_def example_converter_def example_ready_def)

theorem directories_exist_after_failure_witness:
  "init ''https://example.com/gone'' ''output'' None example_world =
     (Inr gone_converter, example_ready) \<and>
   convert_to_markdown example_env gone_converter example_ready =
     (Inl (HTTPError 404), example_ready\<lparr>requests := [''https://example.com/gone'']\<rparr>) \<and>
   output_dir gone_converter = Path ''output'' \<and>
   images_dir gone_converter = path_join (Path ''output'') ''images'' \<and>
   requests example_ready = requests example_world \<and>
   is_dir (files example_ready) (output_dir gone_converter) \<and>
   is_dir (files example_ready) (images_dir gone_converter) \<and>
   is_dir (files (example_ready\<lparr>requests := [''https://example.com/gone'']\<rparr>))
     (output_dir gone_converter) \<and>
   is_dir (files (example_ready\<lparr>requests := [''https://example.com/gone'']\<rparr>))
     (images_dir gone_converter)"
  using example_init example_gone directories_exist_after_failure [OF example_init example_gone]
  by blast

section \<open>The name of a downloaded image\<close>

lemma download_image_success:
  assumes "py_not name0"
    and "urljoin e (url self) src = Some img_url"
    and "http_get e (requests w) img_url = Response status content"
    and "\<not> error_status status"
    and "write_file (files w) (path_join (images_dir self) (generated_name e img_url)) Binary content = Inr fs"
  shows "download_image e self src name0 w =
           (''images/'' @ generated_name e img_url, \<lparr>files = fs, requests = requests w @ [img_url]\<rparr>)"
  using assms by (simp add: download_image_def Let_def)




text \<open>
  Claim C8 (for an image without an explicitly provided name the local file name is
  \<open>img_\<close>, the first 8 characters of the hexadecimal MD5 digest of the absolute image
  URL, and the extension of the URL path, or \<open>.jpg\<close> when the path has none; the name is
  a function of the absolute URL alone, so identical absolute URLs give identical names).
  A successful download without a given name writes the content to the file of that
  name in the images directory and returns \<open>images/\<close> followed by the name; every other
  successful download that resolves to the same absolute URL, from whatever source
  attribute and in whatever state, returns the same reference.
\<close>

theorem image_name_from_url:
  assumes "py_not name0"
    and "urljoin e (url self) src = Some img_url"
    and "http_get e (requests w) img_url = Response status content"
    and "\<not> error_status status"
    and "write_file (files w) (path_join (images_dir self) (generated_name e img_url)) Binary content = Inr fs"
  shows "download_image e self src name0 w =
           (''images/'' @ generated_name e img_url, \<lparr>files = fs, requests = requests w @ [img_url]\<rparr>) \<and>
         fs (path_join (images_dir self) (generated_name e img_url)) = Some (File Binary content) \<and>
         generated_name e img_url =
           ''img_'' @ take 8 (md5_hex e img_url) @
             (if splitext_ext (url_path e img_url) = [] then ''.jpg'' else splitext_ext (url_path e img_url)) \<and>
         (\<forall>src' name' w' status' content' fs'.
            py_not name' \<and> urljoin e (url self) src' = Some img_url \<and>
            http_get e (requests w') img_url = Response status' content' \<and> \<not> error_status status' \<and>
            write_file (files w') (path_join (images_dir self) (generated_name e img_url)) Binary content'
              = Inr fs' \<longrightarrow>
            fst (download_image e self src' name' w') = fst (download_image e self src name0 w))"
proof -
  have a: "download_image e self src name0 w =
      (''images/'' @ generated_name e img_url, \<lparr>files = fs, requests = requests w @ [img_url]\<rparr>)"
    using assms by (rule download_image_success)
  have b: "fs (path_join (images_dir self) (generated_name e img_url)) = Some (File Binary content)"
    using assms(5) by (rule write_file_written)
  have c: "generated_name e img_url =
      ''img_'' @ take 8 (md5_hex e img_url) @
        (if splitext_ext (url_path e img_url) = [] then ''.jpg'' else splitext_ext (url_path e img_url))"
    by (simp add: generated_name_def Let_def)
  have d: "fst (download_image e self src' name' w') = fst (download_image e self src name0 w)"
    if "py_not name'" "urljoin e (url self) src' = Some img_url"
      "http_get e (requests w') img_url = Response status' content'" "\<not> error_status status'"
      "write_file (files w') (path_join (images_dir self) (generated_name e img_url)) Binary content'
         = Inr fs'"
    for src' name' w' status' content' fs'
    using download_image_success [OF that] a by simp
  from a b c d show ?thesis by blast
qed

text \<open>
  In the example \<open>/a.png\<close> resolves to \<open>https://example.com/a.png\<close>, whose digest starts
  with \<open>8c11d92f\<close>.
\<close>

lemma example_a_answer:
  "urljoin example_env (url example_converter) ''/a.png'' = Some ''https://example.com/a.png''"
  "http_get example_env (requests example_ready) ''https://example.com/a.png'' = Response 200 ''PNG-a''"
  "\<not> error_status 200"
  "generated_name example_env ''https://example.com/a.png'' = ''img_8c11d92f.png''"
  by (simp_all add: example_env_def example_get_def example_converter_def example_md5_def
      error_status_def generated_name_def splitext_ext_def basename_def)

lemma example_a_write:
  "write_file (files example_ready)
     (path_join (images_dir example_converter) (generated_name example_env ''https://example.com/a.png''))
     Binary ''PNG-a'' =
   Inr ((files example_ready)
          ((False, [''output'', ''images'', ''img_8c11d92f.png'']) \<mapsto> File Binary ''PNG-a''))"
  by (simp add: example_a_answer write_file_def is_dir_def parent_def path_join_def parts_def
      example_converter_def example_ready_def)

theorem image_name_from_url_witness:
  "py_not None \<and>
   download_image example_env example_converter ''/a.png'' None example_ready =
     (''images/img_8c11d92f.png'',
      \<lparr>files = (files example_ready)
         ((False, [''output'', ''images'', ''img_8c11d92f.png'']) \<mapsto> File Binary ''PNG-a''),
       requests = requests example_ready @ [''https://example.com/a.png'']\<rparr>) \<and>
   generated_name example_env ''https://example.com/a.png'' = ''img_8c11d92f.png''"
proof -
  have n: "py_not None" by simp
  from image_name_from_url [OF n example_a_answer(1,2,3) example_a_write] n example_a_answer(4)
  show ?thesis by simp
qed

section \<open>The images of a document\<close>













subsection \<open>A failed image download\<close>









subsection \<open>Images outside the main content\<close>









section \<open>The name of the output file\<close>







section \<open>The command line\<close>

text \<open>
  Claim C4 (with the flag \<open>--no-images\<close> image downloading is skipped entirely: no image
  is fetched and no file is written under the images directory). \<open>main\<close> only sets
  \<open>ignore_images\<close> of the Markdown converter; \<open>convert_to_markdown\<close> still processes
  the images. With the flag set, the run on the example page requests the three images
  and writes the two that can be downloaded.
\<close>

theorem no_images_flag_still_downloads:
  "arg_no_images example_args \<and>
   fst (main example_env example_args example_world) = 0 \<and>
   requests (snd (main example_env example_args example_world)) =
     [''https://example.com/page'', ''https://example.com/a.png'',
      ''https://example.com/missing.png'', ''https://example.com/aside.png''] \<and>
   files (snd (main example_env example_args example_world))
     (False, [''output'', ''images'', ''img_8c11d92f.png'']) = Some (File Binary ''PNG-a'') \<and>
   files (snd (main example_env example_args example_world))
     (False, [''output'', ''images'', ''img_a8ea94e9.png'']) = Some (File Binary ''PNG-aside'')"
  by code_simp

end
